theory Spec2Isabelle
  imports Complex_Main "HOL-Library.Word"
begin

section \<open>Values shared by the proxy route and the page\<close>

text \<open>
  A parsed JSON value (the \<^verbatim>\<open>unknown\<close> that \<^verbatim>\<open>JSON.parse\<close> returns). Numbers are
  exact rationals; an object is an association list in key order.
\<close>

datatype json =
    JNull
  | JBool bool
  | JNum rat
  | JStr string
  | JArr "json list"
  | JObj "(string \<times> json) list"

text \<open>
  A thrown JavaScript value. \<open>JsError m\<close> is an instance of \<^verbatim>\<open>Error\<close> with message
  \<open>m\<close>; \<open>NonError\<close> is any other thrown value.
\<close>

datatype exn = JsError string | NonError

text \<open>Decimal rendering of a status code inside a template literal.\<close>

definition digit_char :: "nat \<Rightarrow> char" where
  "digit_char d = (''0123456789'' ! (d mod 10))"

function string_of_nat :: "nat \<Rightarrow> string" where
  "string_of_nat n =
     (if n < 10 then [digit_char n] else string_of_nat (n div 10) @ [digit_char (n mod 10)])"
  by pat_completeness auto
termination
  by (relation "measure (\<lambda>n. n)") auto

declare string_of_nat.simps [simp del]

section \<open>src/app/api/convert/route.ts\<close>

definition MATHPIX_ENDPOINT :: string where
  "MATHPIX_ENDPOINT = ''https://api.mathpix.com/v3/pdf''"

text \<open>The two module constants read from \<^verbatim>\<open>process.env\<close>; \<open>None\<close> is \<^verbatim>\<open>undefined\<close>.\<close>

record env =
  APP_ID :: "string option"
  APP_KEY :: "string option"

text \<open>An outbound \<^verbatim>\<open>fetch\<close> call: method, URL, headers and body bytes.\<close>

record out_request =
  rq_method :: string
  rq_url :: string
  rq_headers :: "(string \<times> string) list"
  rq_body :: "8 word list option"

text \<open>
  What the external service answers: the status code and the outcome of
  \<^verbatim>\<open>response.text()\<close>, which may reject.
\<close>

record upstream_response =
  up_status :: nat
  up_text :: "exn + string"

definition up_ok :: "upstream_response \<Rightarrow> bool" where
  "up_ok r \<longleftrightarrow> 200 \<le> up_status r \<and> up_status r \<le> 299"

text \<open>
  The platform functions the route calls and does not define. \<open>JSON_parse t = None\<close>
  means that \<^verbatim>\<open>JSON.parse(t)\<close> throws; \<open>fetch\<close> and \<open>encodeURIComponent\<close> return
  \<open>Inl\<close> when they throw or reject. The last two members are the messages of the
  RangeError and of the TypeError that the \<^verbatim>\<open>Response\<close> constructor throws for a status
  it refuses.
\<close>

record platform =
  JSON_parse :: "string \<Rightarrow> json option"
  encodeURIComponent :: "string \<Rightarrow> exn + string"
  fetch :: "out_request \<Rightarrow> exn + upstream_response"
  RangeError_message :: "nat \<Rightarrow> string"
  TypeError_message :: "nat \<Rightarrow> string"

text \<open>A member of the uploaded form: a plain string field or a \<^verbatim>\<open>Blob\<close>/\<^verbatim>\<open>File\<close>.\<close>

record blob =
  blob_type :: string
  blob_bytes :: "exn + 8 word list"

datatype form_entry = FormString string | FormBlob blob

text \<open>
  An incoming request: the outcome of \<^verbatim>\<open>request.formData()\<close> (used by POST) and the
  query parameters of \<^verbatim>\<open>request.nextUrl\<close> (used by GET).
\<close>

record request =
  formData :: "exn + (string \<times> form_entry) list"
  searchParams :: "(string \<times> string) list"

text \<open>A response of a handler: the status and the JSON value that is serialised.\<close>

record response =
  res_status :: nat
  res_body :: json

text \<open>
  The statuses that allow no body. \<^verbatim>\<open>NextResponse.json\<close> always passes a body (the
  serialised value), so the \<^verbatim>\<open>Response\<close> constructor refuses them.
\<close>

definition null_body_status :: "nat \<Rightarrow> bool" where
  "null_body_status s \<longleftrightarrow> s = 101 \<or> s = 103 \<or> s = 204 \<or> s = 205 \<or> s = 304"

text \<open>
  \<^verbatim>\<open>NextResponse.json(body, {status})\<close>; the status defaults to 200. The \<^verbatim>\<open>Response\<close>
  constructor behind it throws a RangeError for a status outside 200..599 and a
  TypeError for a status that allows no body.
\<close>

definition NextResponse_json :: "platform \<Rightarrow> json \<Rightarrow> nat \<Rightarrow> exn + response" where
  "NextResponse_json P b s =
     (if s < 200 \<or> 599 < s then Inl (JsError (RangeError_message P s))
      else if null_body_status s then Inl (JsError (TypeError_message P s))
      else Inr \<lparr>res_status = s, res_body = b\<rparr>)"

text \<open>
  A handler run yields either a thrown value or a result, together with the list of
  outbound calls it made, in order.
\<close>

type_synonym 'a io = "(exn + 'a) \<times> out_request list"

definition falsy_str :: "string option \<Rightarrow> bool" where
  "falsy_str s \<longleftrightarrow> (case s of None \<Rightarrow> True | Some t \<Rightarrow> t = [])"

definition getCredentialHeader :: "env \<Rightarrow> exn + (string \<times> string)" where
  "getCredentialHeader e =
     (if falsy_str (APP_ID e) \<or> falsy_str (APP_KEY e)
      then Inl (JsError ''Mathpix credentials are missing. Set MATHPIX_APP_ID and MATHPIX_APP_KEY env vars.'')
      else Inr (the (APP_ID e), the (APP_KEY e)))"

text \<open>The \<^verbatim>\<open>try { parsed = JSON.parse(text) } catch { parsed = text }\<close> block.\<close>

definition parse_or_text :: "platform \<Rightarrow> string \<Rightarrow> json" where
  "parse_or_text P t = (case JSON_parse P t of Some j \<Rightarrow> j | None \<Rightarrow> JStr t)"

text \<open>The \<^verbatim>\<open>??\<close> operator on a parsed value: only \<^verbatim>\<open>null\<close> gives way to the default.\<close>

definition nullish_or :: "json \<Rightarrow> json \<Rightarrow> json" where
  "nullish_or j d = (if j = JNull then d else j)"

definition upload_request :: "string \<Rightarrow> string \<Rightarrow> 8 word list \<Rightarrow> out_request" where
  "upload_request appId appKey arrayBuffer =
     \<lparr>rq_method = ''POST'', rq_url = MATHPIX_ENDPOINT,
      rq_headers = [(''Content-Type'', ''application/pdf''), (''Accept'', ''application/json''),
                    (''app_id'', appId), (''app_key'', appKey)],
      rq_body = Some arrayBuffer\<rparr>"

definition status_request :: "string \<Rightarrow> string \<Rightarrow> string \<Rightarrow> out_request" where
  "status_request appId appKey enc =
     \<lparr>rq_method = ''GET'', rq_url = MATHPIX_ENDPOINT @ ''/'' @ enc,
      rq_headers = [(''Accept'', ''application/json''), (''app_id'', appId), (''app_key'', appKey)],
      rq_body = None\<rparr>"

definition forwardToMathpix :: "platform \<Rightarrow> env \<Rightarrow> 8 word list \<Rightarrow> (upstream_response \<times> json) io" where
  "forwardToMathpix P e arrayBuffer =
     (case getCredentialHeader e of
        Inl x \<Rightarrow> (Inl x, [])
      | Inr (appId, appKey) \<Rightarrow>
          (let rq = upload_request appId appKey arrayBuffer
           in (case fetch P rq of
                 Inl x \<Rightarrow> (Inl x, [rq])
               | Inr r \<Rightarrow>
                   (case up_text r of
                      Inl x \<Rightarrow> (Inl x, [rq])
                    | Inr t \<Rightarrow> (Inr (r, parse_or_text P t), [rq])))))"

text \<open>The \<^verbatim>\<open>catch (error)\<close> block both handlers share.\<close>

definition error_message :: "exn \<Rightarrow> string" where
  "error_message x = (case x of JsError m \<Rightarrow> m | NonError \<Rightarrow> ''Unexpected error'')"

definition catch_500 :: "platform \<Rightarrow> response io \<Rightarrow> response io" where
  "catch_500 P r =
     (case r of
        (Inl x, calls) \<Rightarrow> (NextResponse_json P (JObj [(''error'', JStr (error_message x))]) 500, calls)
      | (Inr v, calls) \<Rightarrow> (Inr v, calls))"

text \<open>The body of the \<^verbatim>\<open>try\<close> block of POST.\<close>

definition POST_try :: "platform \<Rightarrow> env \<Rightarrow> request \<Rightarrow> response io" where
  "POST_try P e req =
     (case formData req of
        Inl x \<Rightarrow> (Inl x, [])
      | Inr fd \<Rightarrow>
          (case map_of fd ''file'' of
             None \<Rightarrow> (NextResponse_json P (JObj [(''error'', JStr ''Missing PDF file payload.'')]) 400, [])
           | Some (FormString s) \<Rightarrow>
               (NextResponse_json P (JObj [(''error'', JStr ''Missing PDF file payload.'')]) 400, [])
           | Some (FormBlob file) \<Rightarrow>
               (if blob_type file \<noteq> [] \<and> blob_type file \<noteq> ''application/pdf''
                then (NextResponse_json P
                        (JObj [(''error'', JStr ''Only application/pdf uploads are supported.'')]) 400, [])
                else (case blob_bytes file of
                        Inl x \<Rightarrow> (Inl x, [])
                      | Inr arrayBuffer \<Rightarrow>
                          (case forwardToMathpix P e arrayBuffer of
                             (Inl x, calls) \<Rightarrow> (Inl x, calls)
                           | (Inr (r, parsed), calls) \<Rightarrow>
                               (if \<not> up_ok r
                                then (NextResponse_json P
                                        (nullish_or parsed
                                           (JObj [(''error'', JStr ''Mathpix rejected the request.'')]))
                                        (up_status r), calls)
                                else (NextResponse_json P
                                        (nullish_or parsed (JObj [(''success'', JBool True)])) 200,
                                      calls)))))))"

definition POST :: "platform \<Rightarrow> env \<Rightarrow> request \<Rightarrow> response io" where
  "POST P e req = catch_500 P (POST_try P e req)"

text \<open>The body of the \<^verbatim>\<open>try\<close> block of GET.\<close>

definition GET_try :: "platform \<Rightarrow> env \<Rightarrow> request \<Rightarrow> response io" where
  "GET_try P e req =
     (case getCredentialHeader e of
        Inl x \<Rightarrow> (Inl x, [])
      | Inr (appId, appKey) \<Rightarrow>
          (let jobId = map_of (searchParams req) ''jobId'' in
           if falsy_str jobId
           then (NextResponse_json P
                   (JObj [(''error'', JStr ''jobId query parameter is required.'')]) 400, [])
           else (case encodeURIComponent P (the jobId) of
                   Inl x \<Rightarrow> (Inl x, [])
                 | Inr enc \<Rightarrow>
                     (let rq = status_request appId appKey enc
                      in (case fetch P rq of
                            Inl x \<Rightarrow> (Inl x, [rq])
                          | Inr r \<Rightarrow>
                              (case up_text r of
                                 Inl x \<Rightarrow> (Inl x, [rq])
                               | Inr t \<Rightarrow>
                                   (let parsed = parse_or_text P t in
                                    if \<not> up_ok r
                                    then (NextResponse_json P
                                            (nullish_or parsed
                                               (JObj [(''error'',
                                                       JStr (''Mathpix status lookup failed with ''
                                                             @ string_of_nat (up_status r) @ ''.''))]))
                                            (up_status r), [rq])
                                    else (NextResponse_json P (nullish_or parsed (JObj [])) 200,
                                          [rq]))))))))"

definition GET :: "platform \<Rightarrow> env \<Rightarrow> request \<Rightarrow> response io" where
  "GET P e req = catch_500 P (GET_try P e req)"

section \<open>The page component (src/unnamed/part_000)\<close>

subsection \<open>The status payload and the component state\<close>

record job_data =
  data_type :: "string option"
  data_value :: "string option"

text \<open>
  The interface \<^verbatim>\<open>PdfJobStatus\<close>, with the three members \<^verbatim>\<open>success\<close>, \<^verbatim>\<open>id\<close> and
  \<^verbatim>\<open>pdf_id\<close> that \<^verbatim>\<open>handleSubmit\<close> adds to it. \<open>None\<close> is a member that is
  \<^verbatim>\<open>undefined\<close> or \<^verbatim>\<open>null\<close>; the source reads \<^verbatim>\<open>status\<close> with \<^verbatim>\<open>?.\<close>, so it is
  optional here too. Numbers are exact rationals.
\<close>

record PdfJobStatus =
  job_id :: "string option"
  status :: "string option"
  num_pages :: "rat option"
  pages_processed :: "rat option"
  error :: "string option"
  data :: "job_data option"
  markdown :: "string option"
  html :: "string option"
  text_field :: "string option"
  pdf_url :: "string option"
  conversion_status :: "string option"
  success :: "bool option"
  id_field :: "string option"
  pdf_id :: "string option"

text \<open>The \<^verbatim>\<open>useState\<close> cells of \<^verbatim>\<open>HomePage\<close> that the handlers write.\<close>

record page_state =
  isSubmitting :: bool
  statusS :: "PdfJobStatus option"
  jobId :: "string option"
  errorS :: "string option"
  markdownS :: string
  rawResponse :: "PdfJobStatus option"

text \<open>
  What the browser's \<^verbatim>\<open>fetch\<close> resolves to: \<^verbatim>\<open>ok\<close>, \<^verbatim>\<open>status\<close> and the outcomes of
  \<^verbatim>\<open>text()\<close> and \<^verbatim>\<open>json()\<close>.
\<close>

record client_response =
  cr_ok :: bool
  cr_status :: nat
  cr_text :: "exn + string"
  cr_json :: "exn + PdfJobStatus"

definition POLL_INTERVAL_MS :: nat where
  "POLL_INTERVAL_MS = 5000"

text \<open>\<^verbatim>\<open>(err as Error).message\<close>: \<^verbatim>\<open>undefined\<close> for a thrown value that is no Error.\<close>

definition exn_message :: "exn \<Rightarrow> string option" where
  "exn_message x = (case x of JsError m \<Rightarrow> Some m | NonError \<Rightarrow> None)"

text \<open>\<^verbatim>\<open>a ?? b\<close> and \<^verbatim>\<open>a || b\<close> on optional strings.\<close>

definition nullish_str :: "string option \<Rightarrow> string option \<Rightarrow> string option" where
  "nullish_str a b = (case a of None \<Rightarrow> b | Some v \<Rightarrow> Some v)"

definition or_str :: "string option \<Rightarrow> string option \<Rightarrow> string option" where
  "or_str a b = (if falsy_str a then b else a)"

text \<open>\<^verbatim>\<open>toLowerCase\<close> on the ASCII letters.\<close>

definition lower_char :: "char \<Rightarrow> char" where
  "lower_char c =
     (case map_of (zip ''ABCDEFGHIJKLMNOPQRSTUVWXYZ'' ''abcdefghijklmnopqrstuvwxyz'') c of
        None \<Rightarrow> c | Some d \<Rightarrow> d)"

definition toLowerCase :: "string \<Rightarrow> string" where
  "toLowerCase s = map lower_char s"

subsection \<open>The polling effect\<close>

text \<open>
  The effect keeps two local variables, \<^verbatim>\<open>ignore\<close> and \<^verbatim>\<open>timer\<close>. \<open>timer\<close> says that
  the variable holds a timeout handle (it starts as \<^verbatim>\<open>null\<close>), \<open>timer_pending\<close> that
  the timeout it holds has neither fired nor been cleared. \<open>phase\<close> is where the running
  call of \<^verbatim>\<open>poll\<close> is suspended: at \<^verbatim>\<open>await fetch(...)\<close>, at \<^verbatim>\<open>await response.json()\<close>,
  or not running.
\<close>

datatype phase = NotRunning | AwaitFetch | AwaitJson client_response

record poller =
  ignore :: bool
  timer :: bool
  timer_pending :: bool
  phase :: phase

text \<open>
  What can happen to a running effect: its timeout fires, the pending \<^verbatim>\<open>fetch\<close>
  settles, the pending \<^verbatim>\<open>json()\<close> settles, or React runs the effect's cleanup
  (the job identifier changed or the component went away).
\<close>

datatype event = TimerFired | FetchSettled "exn + client_response" | JsonSettled | Cleanup

text \<open>The effect body: nothing without a job identifier, else the first timeout.\<close>

definition start_effect :: "string option \<Rightarrow> poller option" where
  "start_effect j =
     (if falsy_str j then None
      else Some \<lparr>ignore = False, timer = True, timer_pending = True, phase = NotRunning\<rparr>)"

definition derivedMarkdown :: "PdfJobStatus \<Rightarrow> string" where
  "derivedMarkdown payload =
     (case nullish_str
             (nullish_str
                (nullish_str (case data payload of None \<Rightarrow> None | Some d \<Rightarrow> data_value d)
                   (markdown payload))
                (html payload))
             (text_field payload) of
        None \<Rightarrow> []
      | Some v \<Rightarrow> v)"

text \<open>The \<^verbatim>\<open>catch (err)\<close> block of \<^verbatim>\<open>poll\<close>.\<close>

definition poll_catch :: "exn \<Rightarrow> poller \<times> page_state \<Rightarrow> poller \<times> page_state" where
  "poll_catch x ps =
     (case ps of (p, s) \<Rightarrow>
        if \<not> ignore p then (p, s\<lparr>errorS := exn_message x\<rparr>) else (p, s))"

text \<open>\<^verbatim>\<open>poll\<close> from the point where the payload has arrived.\<close>

definition poll_payload :: "PdfJobStatus \<Rightarrow> poller \<times> page_state \<Rightarrow> poller \<times> page_state" where
  "poll_payload payload ps =
     (case ps of (p, s) \<Rightarrow>
        if ignore p then (p, s)
        else
          (let s1 = s\<lparr>statusS := Some payload, rawResponse := Some payload\<rparr>;
               completionState = map_option toLowerCase (status payload)
           in if completionState = Some ''completed''
              then (p, s1\<lparr>markdownS := derivedMarkdown payload\<rparr>)
              else if completionState = Some ''error'' \<or> completionState = Some ''failed''
              then (p, s1\<lparr>errorS :=
                            or_str (error payload)
                              (Some ''Conversion failed. Check Mathpix dashboard for details.'')\<rparr>)
              else (p\<lparr>timer := True, timer_pending := True\<rparr>, s1)))"

fun poll_step :: "event \<Rightarrow> poller \<times> page_state \<Rightarrow> poller \<times> page_state" where
  "poll_step TimerFired (p, s) =
     (if timer_pending p then (p\<lparr>timer_pending := False, phase := AwaitFetch\<rparr>, s) else (p, s))"
| "poll_step (FetchSettled r) (p, s) =
     (if phase p = AwaitFetch
      then (case r of
              Inl x \<Rightarrow> poll_catch x (p\<lparr>phase := NotRunning\<rparr>, s)
            | Inr resp \<Rightarrow>
                if \<not> cr_ok resp
                then poll_catch (JsError (''Polling failed: '' @ string_of_nat (cr_status resp)))
                       (p\<lparr>phase := NotRunning\<rparr>, s)
                else (p\<lparr>phase := AwaitJson resp\<rparr>, s))
      else (p, s))"
| "poll_step JsonSettled (p, s) =
     (case phase p of
        AwaitJson resp \<Rightarrow>
          (case cr_json resp of
             Inl x \<Rightarrow> poll_catch x (p\<lparr>phase := NotRunning\<rparr>, s)
           | Inr payload \<Rightarrow> poll_payload payload (p\<lparr>phase := NotRunning\<rparr>, s))
      | _ \<Rightarrow> (p, s))"
| "poll_step Cleanup (p, s) =
     (if timer p then (p\<lparr>ignore := True, timer_pending := False\<rparr>, s)
      else (p\<lparr>ignore := True\<rparr>, s))"

text \<open>
  A run of the effect over a sequence of events, oldest first. A thrown
  \<^verbatim>\<open>encodeURIComponent\<close> inside \<^verbatim>\<open>poll\<close> reaches the same \<^verbatim>\<open>catch\<close> block as a rejected
  \<^verbatim>\<open>fetch\<close>, so \<open>FetchSettled (Inl x)\<close> stands for both.
\<close>

fun poll_run :: "event list \<Rightarrow> poller \<times> page_state \<Rightarrow> poller \<times> page_state" where
  "poll_run [] ps = ps"
| "poll_run (ev # evs) ps = poll_run evs (poll_step ev ps)"

subsection \<open>The progress fraction\<close>

definition falsy_num :: "rat option \<Rightarrow> bool" where
  "falsy_num n \<longleftrightarrow> (case n of None \<Rightarrow> True | Some x \<Rightarrow> x = 0)"

definition progress :: "PdfJobStatus option \<Rightarrow> rat" where
  "progress st =
     (let np = (case st of None \<Rightarrow> None | Some v \<Rightarrow> num_pages v);
          pp = (case st of None \<Rightarrow> None | Some v \<Rightarrow> pages_processed v)
      in if falsy_num np \<or> falsy_num pp then 0
         else if the np = 0 then 0
         else min (the pp / the np) 1)"

subsection \<open>Submitting the form\<close>

text \<open>A selected file, as far as \<^verbatim>\<open>handleSubmit\<close> looks at it.\<close>

record client_file =
  file_type :: string

text \<open>
  The \<^verbatim>\<open>try\<close> block of \<^verbatim>\<open>handleSubmit\<close>, given what the upload \<^verbatim>\<open>fetch\<close> settled to:
  the new job identifier and the payload, or the thrown value.
\<close>

definition handleSubmit_try :: "(exn + client_response) \<Rightarrow> exn + (string \<times> PdfJobStatus)" where
  "handleSubmit_try r =
     (case r of
        Inl x \<Rightarrow> Inl x
      | Inr resp \<Rightarrow>
          if \<not> cr_ok resp
          then (case cr_text resp of
                  Inl x \<Rightarrow> Inl x
                | Inr t \<Rightarrow> Inl (JsError (if t = [] then ''Upload failed'' else t)))
          else (case cr_json resp of
                  Inl x \<Rightarrow> Inl x
                | Inr payload \<Rightarrow>
                    (let newJobId = or_str (or_str (job_id payload) (id_field payload)) (pdf_id payload)
                     in if falsy_str newJobId
                        then Inl (JsError ''Upload succeeded but no job id returned by Mathpix.'')
                        else Inr (the newJobId, payload))))"

definition handleSubmit :: "client_file list \<Rightarrow> (exn + client_response) \<Rightarrow> page_state \<Rightarrow> page_state" where
  "handleSubmit files r s =
     (case files of
        [] \<Rightarrow> s\<lparr>errorS := Some ''Attach a PDF to convert.''\<rparr>
      | file # _ \<Rightarrow>
          if file_type file \<noteq> ''application/pdf''
          then s\<lparr>errorS := Some ''Only PDF files are supported.''\<rparr>
          else
            (let s1 = s\<lparr>isSubmitting := True, errorS := None, statusS := None, jobId := None,
                        markdownS := [], rawResponse := None\<rparr>;
                 s2 = (case handleSubmit_try r of
                         Inl x \<Rightarrow> s1\<lparr>errorS := exn_message x\<rparr>
                       | Inr (newJobId, payload) \<Rightarrow>
                           s1\<lparr>jobId := Some newJobId, statusS := Some payload,
                              rawResponse := Some payload\<rparr>)
             in s2\<lparr>isSubmitting := False\<rparr>))"

section \<open>Ordered fallback lookups, as the specification words them\<close>

text \<open>
  The first member of a list of optional strings that is present, whatever it holds;
  the empty string when none is.
\<close>

fun first_present :: "string option list \<Rightarrow> string" where
  "first_present [] = []"
| "first_present (None # xs) = first_present xs"
| "first_present (Some v # xs) = v"

text \<open>
  The first member that is present and not the empty string; the empty string when
  there is none. This is the reading "first non-empty field wins".
\<close>

fun first_non_empty :: "string option list \<Rightarrow> string" where
  "first_non_empty [] = []"
| "first_non_empty (None # xs) = first_non_empty xs"
| "first_non_empty (Some v # xs) = (if v = [] then first_non_empty xs else v)"

text \<open>The same lookup, telling "none found" apart from a value.\<close>

fun first_truthy :: "string option list \<Rightarrow> string option" where
  "first_truthy [] = None"
| "first_truthy (None # xs) = first_truthy xs"
| "first_truthy (Some v # xs) = (if v = [] then first_truthy xs else Some v)"

text \<open>The four candidate result fields of a status payload, in priority order.\<close>

definition result_fields :: "PdfJobStatus \<Rightarrow> string option list" where
  "result_fields payload =
     [case data payload of None \<Rightarrow> None | Some d \<Rightarrow> data_value d,
      markdown payload, html payload, text_field payload]"

text \<open>A response status in the client-error class.\<close>

definition client_error :: "response \<Rightarrow> bool" where
  "client_error r \<longleftrightarrow> 400 \<le> res_status r \<and> res_status r \<le> 499"

section \<open>Concrete platforms, requests and payloads\<close>

text \<open>
  \<^verbatim>\<open>JSON.parse\<close> on the texts the examples below hand to it: the two texts of the
  table parse to the values shown, and the empty text, on which \<^verbatim>\<open>JSON.parse\<close> throws a
  SyntaxError, is not in the table. No other text is parsed in the examples.
\<close>

definition JSON_parse_table :: "string \<Rightarrow> json option" where
  \<open>JSON_parse_table =
     map_of [(''null'', JNull),
             (''{"error":"Unauthorized"}'', JObj [(''error'', JStr ''Unauthorized'')])]\<close>

text \<open>
  \<^verbatim>\<open>encodeURIComponent\<close> on a string of bytes: the unreserved characters stay, every
  other byte becomes a percent escape.
\<close>

definition unreserved :: "char \<Rightarrow> bool" where
  "unreserved c \<longleftrightarrow>
     c \<in> set (''ABCDEFGHIJKLMNOPQRSTUVWXYZabcdefghijklmnopqrstuvwxyz0123456789-_.!~*()''
              @ [CHR 0x27])"

definition hex_char :: "nat \<Rightarrow> char" where
  "hex_char d = (''0123456789ABCDEF'' ! (d mod 16))"

definition percent_encode :: "string \<Rightarrow> exn + string" where
  "percent_encode s =
     Inr (concat (map (\<lambda>c. if unreserved c then [c]
                            else [CHR ''%'', hex_char (of_char c div 16),
                                  hex_char (of_char c mod 16)]) s))"

text \<open>
  An external service that answers every call with the given status and body text, on
  a platform whose \<^verbatim>\<open>Response\<close> constructor words its two errors as below.
\<close>

definition service :: "nat \<Rightarrow> string \<Rightarrow> platform" where
  "service code body =
     \<lparr>JSON_parse = JSON_parse_table, encodeURIComponent = percent_encode,
      fetch = (\<lambda>rq. Inr \<lparr>up_status = code, up_text = Inr body\<rparr>),
      RangeError_message = (\<lambda>s. ''status must be in the range of 200 to 599''),
      TypeError_message = (\<lambda>s. ''invalid response status code '' @ string_of_nat s)\<rparr>"

definition configured :: env where
  "configured = \<lparr>APP_ID = Some ''app'', APP_KEY = Some ''key''\<rparr>"

definition unconfigured :: env where
  "unconfigured = \<lparr>APP_ID = None, APP_KEY = None\<rparr>"

text \<open>An upload whose \<^verbatim>\<open>file\<close> member is a four-byte blob of the given media type.\<close>

definition upload_form :: "string \<Rightarrow> request" where
  "upload_form ty =
     \<lparr>formData = Inr [(''file'', FormBlob \<lparr>blob_type = ty,
                                           blob_bytes = Inr [0x25, 0x50, 0x44, 0x46]\<rparr>)],
      searchParams = []\<rparr>"

text \<open>A status request with the given query parameters.\<close>

definition status_query :: "(string \<times> string) list \<Rightarrow> request" where
  "status_query ps = \<lparr>formData = Inr [], searchParams = ps\<rparr>"

definition empty_payload :: PdfJobStatus where
  "empty_payload =
     \<lparr>job_id = None, status = None, num_pages = None, pages_processed = None, error = None,
      data = None, markdown = None, html = None, text_field = None, pdf_url = None,
      conversion_status = None, success = None, id_field = None, pdf_id = None\<rparr>"

definition initial_state :: page_state where
  "initial_state =
     \<lparr>isSubmitting = False, statusS = None, jobId = None, errorS = None, markdownS = [],
      rawResponse = None\<rparr>"

text \<open>A 200 response of the proxy whose JSON body is the given payload.\<close>

definition json_response :: "PdfJobStatus \<Rightarrow> client_response" where
  "json_response payload =
     \<lparr>cr_ok = True, cr_status = 200, cr_text = Inr [], cr_json = Inr payload\<rparr>"

text \<open>A completed job whose structured value is the empty string and whose markdown is not.\<close>

definition completed_empty_value :: PdfJobStatus where
  "completed_empty_value =
     empty_payload\<lparr>status := Some ''completed'',
                    data := Some \<lparr>data_type = None, data_value = Some []\<rparr>,
                    markdown := Some ''# Result''\<rparr>"

text \<open>Scenario C: a completed job whose structured value is \<^verbatim>\<open># Result\<close>.\<close>

definition completed_value :: PdfJobStatus where
  "completed_value =
     empty_payload\<lparr>status := Some ''completed'',
                    data := Some \<lparr>data_type = None, data_value = Some ''# Result''\<rparr>\<rparr>"

text \<open>A poller suspended at \<^verbatim>\<open>await response.json()\<close> on the given response.\<close>

definition awaiting_json :: "client_response \<Rightarrow> poller" where
  "awaiting_json resp =
     \<lparr>ignore = False, timer = True, timer_pending = False, phase = AwaitJson resp\<rparr>"

section \<open>The response constructor\<close>

lemma NextResponse_json_accepts:
  "200 \<le> s \<Longrightarrow> s \<le> 599 \<Longrightarrow> \<not> null_body_status s \<Longrightarrow>
   NextResponse_json P b s = Inr \<lparr>res_status = s, res_body = b\<rparr>"
  by (simp add: NextResponse_json_def)

lemma NextResponse_json_200:
  "NextResponse_json P b 200 = Inr \<lparr>res_status = 200, res_body = b\<rparr>"
  by (simp add: NextResponse_json_def null_body_status_def)

lemma NextResponse_json_400:
  "NextResponse_json P b 400 = Inr \<lparr>res_status = 400, res_body = b\<rparr>"
  by (simp add: NextResponse_json_def null_body_status_def)

lemma NextResponse_json_500:
  "NextResponse_json P b 500 = Inr \<lparr>res_status = 500, res_body = b\<rparr>"
  by (simp add: NextResponse_json_def null_body_status_def)

lemma catch_500_Inl:
  "catch_500 P (Inl x, calls) =
     (Inr \<lparr>res_status = 500, res_body = JObj [(''error'', JStr (error_message x))]\<rparr>, calls)"
  by (simp add: catch_500_def NextResponse_json_500)

lemma catch_500_Inr: "catch_500 P (Inr v, calls) = (Inr v, calls)"
  by (simp add: catch_500_def)

text \<open>
  What the handlers answer when they relay an upstream status outside 200..299: the
  response with that status if the constructor takes it, else the 500 of the
  \<^verbatim>\<open>catch\<close> block with the constructor's message.
\<close>

lemma relay_non_ok:
  assumes "\<not> (200 \<le> s \<and> s \<le> 299)"
  shows "catch_500 P (NextResponse_json P b s, calls) =
     (if s < 200 \<or> 599 < s
      then Inr \<lparr>res_status = 500, res_body = JObj [(''error'', JStr (RangeError_message P s))]\<rparr>
      else if s = 304
      then Inr \<lparr>res_status = 500, res_body = JObj [(''error'', JStr (TypeError_message P s))]\<rparr>
      else Inr \<lparr>res_status = s, res_body = b\<rparr>,
      calls)"
proof -
  from assms have n: "null_body_status s \<longleftrightarrow> s = 304 \<or> s = 101 \<or> s = 103"
    by (auto simp: null_body_status_def)
  show ?thesis
    by (auto simp: NextResponse_json_def n catch_500_Inl catch_500_Inr error_message_def)
qed

section \<open>The upload proxy\<close>

text \<open>
  C8. When the form data was read and its \<^verbatim>\<open>file\<close> member is missing or is not a
  blob, POST answers 400 with the message "Missing PDF file payload." and makes no
  outbound call, whatever the platform and the credentials are.
\<close>

theorem POST_missing_file:
  assumes "formData req = Inr fd" and "\<forall>b. map_of fd ''file'' \<noteq> Some (FormBlob b)"
  shows "POST P e req =
     (Inr \<lparr>res_status = 400, res_body = JObj [(''error'', JStr ''Missing PDF file payload.'')]\<rparr>, [])"
proof (cases "map_of fd ''file''")
  case None
  with assms show ?thesis
    by (simp add: POST_def POST_try_def NextResponse_json_400 catch_500_Inr)
next
  case (Some v)
  with assms obtain t where "v = FormString t" by (cases v) auto
  with Some assms show ?thesis
    by (simp add: POST_def POST_try_def NextResponse_json_400 catch_500_Inr)
qed

text \<open>C8 at a form that only has a text member: status 400, no outbound call.\<close>

theorem POST_missing_file_witness:
  "POST (service 200 ''null'') configured
     \<lparr>formData = Inr [(''note'', FormString ''hello'')], searchParams = []\<rparr> =
     (Inr \<lparr>res_status = 400, res_body = JObj [(''error'', JStr ''Missing PDF file payload.'')]\<rparr>, [])"
  using POST_missing_file [where req = "\<lparr>formData = Inr [(''note'', FormString ''hello'')], searchParams = []\<rparr>"
       and fd = "[(''note'', FormString ''hello'')]" and P = "service 200 ''null''" and e = configured]
  by simp



text \<open>
  C7, as the code has it. A valid upload reaches the external service, and the
  service answers with a status outside 200..299 and a body that parses as JSON.
  When the status is one a response with a body can carry (200..599 and not 304),
  POST answers with that status, and the body is the parsed value unchanged unless
  that value is \<^verbatim>\<open>null\<close>, in which case it is the object with the message "Mathpix
  rejected the request.". For any other status the response constructor throws, and
  POST answers 500 with the message of that error. The upload request is the only
  outbound call.
\<close>

theorem POST_upstream_failure:
  assumes "formData req = Inr fd" and "map_of fd ''file'' = Some (FormBlob b)"
    and "blob_type b = [] \<or> blob_type b = ''application/pdf''"
    and "blob_bytes b = Inr bs"
    and "getCredentialHeader e = Inr (appId, appKey)"
    and "fetch P (upload_request appId appKey bs) = Inr r"
    and "up_text r = Inr t"
    and "\<not> up_ok r"
    and "JSON_parse P t = Some v"
  shows "POST P e req =
     (if up_status r < 200 \<or> 599 < up_status r
      then Inr \<lparr>res_status = 500,
                res_body = JObj [(''error'', JStr (RangeError_message P (up_status r)))]\<rparr>
      else if up_status r = 304
      then Inr \<lparr>res_status = 500,
                res_body = JObj [(''error'', JStr (TypeError_message P (up_status r)))]\<rparr>
      else Inr \<lparr>res_status = up_status r,
                res_body = (if v = JNull
                            then JObj [(''error'', JStr ''Mathpix rejected the request.'')]
                            else v)\<rparr>,
      [upload_request appId appKey bs])"
proof -
  from assms(8) have n: "\<not> (200 \<le> up_status r \<and> up_status r \<le> 299)"
    by (simp add: up_ok_def)
  from assms have "POST P e req =
      catch_500 P (NextResponse_json P
                     (if v = JNull then JObj [(''error'', JStr ''Mathpix rejected the request.'')] else v)
                     (up_status r),
                   [upload_request appId appKey bs])"
    by (auto simp: POST_def POST_try_def forwardToMathpix_def parse_or_text_def nullish_or_def
          Let_def)
  then show ?thesis
    by (simp only: relay_non_ok [OF n])
qed

text \<open>
  C7 at Scenario F: the service answers 401 with a JSON error object, and POST
  answers 401 with that object.
\<close>

theorem POST_upstream_failure_witness:
  \<open>POST (service 401 ''{"error":"Unauthorized"}'') configured (upload_form ''application/pdf'') =
     (Inr \<lparr>res_status = 401, res_body = JObj [(''error'', JStr ''Unauthorized'')]\<rparr>,
      [upload_request ''app'' ''key'' [0x25, 0x50, 0x44, 0x46]])\<close>
  using POST_upstream_failure [where req = "upload_form ''application/pdf''"
       and fd = "[(''file'', FormBlob \<lparr>blob_type = ''application/pdf'',
                                          blob_bytes = Inr [0x25, 0x50, 0x44, 0x46]\<rparr>)]"
       and b = "\<lparr>blob_type = ''application/pdf'', blob_bytes = Inr [0x25, 0x50, 0x44, 0x46]\<rparr>"
       and bs = "[0x25, 0x50, 0x44, 0x46]" and e = configured
       and appId = "''app''" and appKey = "''key''"
       and P = \<open>service 401 ''{"error":"Unauthorized"}''\<close>
       and r = \<open>\<lparr>up_status = 401, up_text = Inr ''{"error":"Unauthorized"}''\<rparr>\<close>
       and t = \<open>''{"error":"Unauthorized"}''\<close>
       and v = "JObj [(''error'', JStr ''Unauthorized'')]"]
  by (simp add: upload_form_def configured_def getCredentialHeader_def falsy_str_def
        service_def JSON_parse_table_def up_ok_def)

text \<open>
  C7 as stated fails in two ways. The service answers 401 with the JSON body
  \<^verbatim>\<open>null\<close>, and POST answers 401 with an error object in place of \<^verbatim>\<open>null\<close>. The service
  answers with the status 999 and a JSON error object, and POST answers 500 with the
  message of the constructor's RangeError.
\<close>

theorem POST_upstream_failure_counterexample:
  \<open>JSON_parse (service 401 ''null'') ''null'' = Some JNull
   \<and> POST (service 401 ''null'') configured (upload_form ''application/pdf'') =
       (Inr \<lparr>res_status = 401,
             res_body = JObj [(''error'', JStr ''Mathpix rejected the request.'')]\<rparr>,
        [upload_request ''app'' ''key'' [0x25, 0x50, 0x44, 0x46]])
   \<and> JObj [(''error'', JStr ''Mathpix rejected the request.'')] \<noteq> JNull
   \<and> POST (service 999 ''{"error":"Unauthorized"}'') configured (upload_form ''application/pdf'') =
       (Inr \<lparr>res_status = 500,
             res_body = JObj [(''error'', JStr ''status must be in the range of 200 to 599'')]\<rparr>,
        [upload_request ''app'' ''key'' [0x25, 0x50, 0x44, 0x46]])\<close>
  by (simp add: POST_def POST_try_def catch_500_def forwardToMathpix_def parse_or_text_def
        nullish_or_def Let_def service_def configured_def upload_form_def getCredentialHeader_def
        falsy_str_def JSON_parse_table_def up_ok_def NextResponse_json_def null_body_status_def
        error_message_def)

section \<open>The status proxy\<close>

text \<open>
  C3, as the code has it. When the \<^verbatim>\<open>jobId\<close> query parameter is absent or empty, GET
  makes no outbound call; with both credentials set it answers 400 with the message
  "jobId query parameter is required.", and with a credential missing it answers 500
  with the credentials message, because the credentials are read first.
\<close>

theorem GET_missing_jobId:
  assumes "falsy_str (map_of (searchParams req) ''jobId'')"
  shows "snd (GET P e req) = []
     \<and> (\<not> falsy_str (APP_ID e) \<and> \<not> falsy_str (APP_KEY e) \<longrightarrow>
          fst (GET P e req) =
            Inr \<lparr>res_status = 400,
                 res_body = JObj [(''error'', JStr ''jobId query parameter is required.'')]\<rparr>)
     \<and> (falsy_str (APP_ID e) \<or> falsy_str (APP_KEY e) \<longrightarrow>
          fst (GET P e req) =
            Inr \<lparr>res_status = 500,
                 res_body = JObj [(''error'', JStr ''Mathpix credentials are missing. Set MATHPIX_APP_ID and MATHPIX_APP_KEY env vars.'')]\<rparr>)"
  using assms
  by (simp add: GET_def GET_try_def getCredentialHeader_def catch_500_Inl catch_500_Inr
        NextResponse_json_400 error_message_def)

text \<open>C3 at a request without parameters, with the credentials set: 400, nothing sent.\<close>

theorem GET_missing_jobId_witness:
  "GET (service 200 ''null'') configured (status_query []) =
     (Inr \<lparr>res_status = 400,
           res_body = JObj [(''error'', JStr ''jobId query parameter is required.'')]\<rparr>, [])"
  using GET_missing_jobId [where req = "status_query []" and P = "service 200 ''null''"
       and e = configured]
  by (simp add: status_query_def configured_def falsy_str_def prod_eq_iff)

text \<open>
  C3 as stated fails when the credentials are missing: a request without \<^verbatim>\<open>jobId\<close>
  is then answered with 500, which is no client error.
\<close>

theorem GET_missing_jobId_counterexample:
  "map_of (searchParams (status_query [])) ''jobId'' = None
   \<and> GET (service 200 ''null'') unconfigured (status_query []) =
       (Inr \<lparr>res_status = 500,
             res_body = JObj [(''error'', JStr ''Mathpix credentials are missing. Set MATHPIX_APP_ID and MATHPIX_APP_KEY env vars.'')]\<rparr>,
        [])
   \<and> \<not> client_error \<lparr>res_status = 500,
             res_body = JObj [(''error'', JStr ''Mathpix credentials are missing. Set MATHPIX_APP_ID and MATHPIX_APP_KEY env vars.'')]\<rparr>"
  by (simp add: GET_def GET_try_def getCredentialHeader_def catch_500_Inl error_message_def
        falsy_str_def status_query_def unconfigured_def client_error_def)

text \<open>
  C4, as the code has it. The status lookup reaches the external service, and the
  service answers with a status outside 200..299. When the status is one a response
  with a body can carry (200..599 and not 304), GET answers with that status; the body
  is the upstream text as a JSON string when the text does not parse, the parsed value
  when it parses to something other than \<^verbatim>\<open>null\<close>, and the message "Mathpix status
  lookup failed with <status>." when it parses to \<^verbatim>\<open>null\<close>. For any other status the
  response constructor throws, and GET answers 500 with the message of that error.
  The status request is the only outbound call.
\<close>

theorem GET_upstream_failure:
  assumes "getCredentialHeader e = Inr (appId, appKey)"
    and "map_of (searchParams req) ''jobId'' = Some j" and "j \<noteq> []"
    and "encodeURIComponent P j = Inr enc"
    and "fetch P (status_request appId appKey enc) = Inr r"
    and "up_text r = Inr t"
    and "\<not> up_ok r"
  shows "GET P e req =
     (if up_status r < 200 \<or> 599 < up_status r
      then Inr \<lparr>res_status = 500,
                res_body = JObj [(''error'', JStr (RangeError_message P (up_status r)))]\<rparr>
      else if up_status r = 304
      then Inr \<lparr>res_status = 500,
                res_body = JObj [(''error'', JStr (TypeError_message P (up_status r)))]\<rparr>
      else Inr \<lparr>res_status = up_status r,
                res_body =
                  (case JSON_parse P t of
                     None \<Rightarrow> JStr t
                   | Some v \<Rightarrow>
                       if v = JNull
                       then JObj [(''error'', JStr (''Mathpix status lookup failed with ''
                                                    @ string_of_nat (up_status r) @ ''.''))]
                       else v)\<rparr>,
      [status_request appId appKey enc])"
proof -
  from assms(7) have n: "\<not> (200 \<le> up_status r \<and> up_status r \<le> 299)"
    by (simp add: up_ok_def)
  from assms have "GET P e req =
      catch_500 P (NextResponse_json P
                     (case JSON_parse P t of
                        None \<Rightarrow> JStr t
                      | Some v \<Rightarrow>
                          if v = JNull
                          then JObj [(''error'', JStr (''Mathpix status lookup failed with ''
                                                       @ string_of_nat (up_status r) @ ''.''))]
                          else v)
                     (up_status r),
                   [status_request appId appKey enc])"
    by (simp add: GET_def GET_try_def falsy_str_def parse_or_text_def nullish_or_def
          Let_def split: option.splits)
  then show ?thesis
    by (simp only: relay_non_ok [OF n])
qed

text \<open>
  C4 at a service that answers 404 with the body \<^verbatim>\<open>null\<close> (GET answers 404 with the
  fallback message) and at one that answers 304 (GET answers 500 with the message of
  the constructor's TypeError).
\<close>

theorem GET_upstream_failure_witness:
  "GET (service 404 ''null'') configured (status_query [(''jobId'', ''abc'')]) =
     (Inr \<lparr>res_status = 404,
           res_body = JObj [(''error'', JStr ''Mathpix status lookup failed with 404.'')]\<rparr>,
      [status_request ''app'' ''key'' ''abc''])
   \<and> GET (service 304 []) configured (status_query [(''jobId'', ''abc'')]) =
       (Inr \<lparr>res_status = 500,
             res_body = JObj [(''error'', JStr ''invalid response status code 304'')]\<rparr>,
        [status_request ''app'' ''key'' ''abc''])"
  using GET_upstream_failure [where e = configured and appId = "''app''" and appKey = "''key''"
       and req = "status_query [(''jobId'', ''abc'')]" and j = "''abc''"
       and P = "service 404 ''null''" and enc = "''abc''"
       and r = "\<lparr>up_status = 404, up_text = Inr ''null''\<rparr>" and t = "''null''"]
    GET_upstream_failure [where e = configured and appId = "''app''" and appKey = "''key''"
       and req = "status_query [(''jobId'', ''abc'')]" and j = "''abc''"
       and P = "service 304 []" and enc = "''abc''"
       and r = "\<lparr>up_status = 304, up_text = Inr []\<rparr>" and t = "[]"]
  by (simp add: status_query_def configured_def getCredentialHeader_def falsy_str_def
        service_def percent_encode_def unreserved_def JSON_parse_table_def up_ok_def
        string_of_nat.simps digit_char_def)

text \<open>
  C4 as stated fails in both directions. The service answers 500 with an empty body,
  and GET answers 500 with the empty string as body, not with the fallback message.
  The service answers 500 with the body \<^verbatim>\<open>null\<close>, which is not empty, and GET answers
  500 with the fallback message in place of \<^verbatim>\<open>null\<close>.
\<close>

theorem GET_upstream_failure_counterexample:
  "GET (service 500 []) configured (status_query [(''jobId'', ''abc'')]) =
     (Inr \<lparr>res_status = 500, res_body = JStr []\<rparr>, [status_request ''app'' ''key'' ''abc''])
   \<and> JStr [] \<noteq> JObj [(''error'', JStr ''Mathpix status lookup failed with 500.'')]
   \<and> ''null'' \<noteq> []
   \<and> GET (service 500 ''null'') configured (status_query [(''jobId'', ''abc'')]) =
       (Inr \<lparr>res_status = 500,
             res_body = JObj [(''error'', JStr ''Mathpix status lookup failed with 500.'')]\<rparr>,
        [status_request ''app'' ''key'' ''abc''])"
  by (simp add: GET_def GET_try_def catch_500_def falsy_str_def parse_or_text_def nullish_or_def
        Let_def service_def configured_def getCredentialHeader_def percent_encode_def
        unreserved_def JSON_parse_table_def up_ok_def NextResponse_json_def null_body_status_def
        status_query_def string_of_nat.simps digit_char_def)

section \<open>Both handlers always answer\<close>

text \<open>
  C10. POST and GET return a response on every run, never a thrown value. Whatever is
  thrown inside the \<^verbatim>\<open>try\<close> block (by form parsing, by reading the bytes, by the
  credentials check, by \<^verbatim>\<open>fetch\<close>, by reading the upstream body or by the response
  constructor) becomes a 500 response whose body is the object with the member
  \<^verbatim>\<open>error\<close>: the message of a thrown Error, and "Unexpected error" for any other thrown
  value.
\<close>

theorem handlers_total:
  "(\<exists>r. fst (POST P e req) = Inr r) \<and> (\<exists>r. fst (GET P e req) = Inr r)
   \<and> (\<forall>x. fst (POST_try P e req) = Inl x \<longrightarrow>
          fst (POST P e req) =
            Inr \<lparr>res_status = 500, res_body = JObj [(''error'', JStr (error_message x))]\<rparr>)
   \<and> (\<forall>x. fst (GET_try P e req) = Inl x \<longrightarrow>
          fst (GET P e req) =
            Inr \<lparr>res_status = 500, res_body = JObj [(''error'', JStr (error_message x))]\<rparr>)
   \<and> (\<forall>m. error_message (JsError m) = m) \<and> error_message NonError = ''Unexpected error''"
  by (auto simp: POST_def GET_def catch_500_def NextResponse_json_500 error_message_def
      split: prod.splits sum.splits)

text \<open>
  C10 at an upload whose form data cannot be parsed and at a status request without
  credentials: both are answered with 500 and the message of the thrown Error.
\<close>

theorem handlers_total_witness:
  "fst (POST (service 200 ''null'') configured
          \<lparr>formData = Inl (JsError ''Failed to parse body as FormData.''), searchParams = []\<rparr>) =
     Inr \<lparr>res_status = 500, res_body = JObj [(''error'', JStr ''Failed to parse body as FormData.'')]\<rparr>
   \<and> fst (GET (service 200 ''null'') unconfigured (status_query [(''jobId'', ''abc'')])) =
       Inr \<lparr>res_status = 500,
            res_body = JObj [(''error'', JStr ''Mathpix credentials are missing. Set MATHPIX_APP_ID and MATHPIX_APP_KEY env vars.'')]\<rparr>"
  using handlers_total [where P = "service 200 ''null''" and e = configured
       and req = "\<lparr>formData = Inl (JsError ''Failed to parse body as FormData.''), searchParams = []\<rparr>"]
    handlers_total [where P = "service 200 ''null''" and e = unconfigured
       and req = "status_query [(''jobId'', ''abc'')]"]
  by (simp add: POST_try_def GET_try_def getCredentialHeader_def unconfigured_def falsy_str_def)

section \<open>The polling effect\<close>

lemma derivedMarkdown_first_present:
  "derivedMarkdown payload = first_present (result_fields payload)"
  by (simp add: derivedMarkdown_def result_fields_def nullish_str_def split: option.splits)

text \<open>
  C1, as the code has it. When the payload of a status poll arrives while the effect
  is live and its status, lowercased, is "completed", the payload is stored, no new
  timeout is scheduled, and the displayed markdown becomes the first field that is
  present among \<^verbatim>\<open>data.value\<close>, \<^verbatim>\<open>markdown\<close>, \<^verbatim>\<open>html\<close> and \<^verbatim>\<open>text\<close>, in this order. A
  present field is taken as it is, the empty string included; the markdown is empty
  when all four are absent.
\<close>

theorem poll_completed:
  assumes "phase p = AwaitJson resp" and "cr_json resp = Inr payload" and "\<not> ignore p"
    and "map_option toLowerCase (status payload) = Some ''completed''"
  shows "poll_step JsonSettled (p, s) =
     (p\<lparr>phase := NotRunning\<rparr>,
      s\<lparr>statusS := Some payload, rawResponse := Some payload,
        markdownS := first_present (result_fields payload)\<rparr>)"
  using assms
  by (simp add: poll_payload_def Let_def derivedMarkdown_first_present)

text \<open>
  C1 at Scenario C: the payload with status "completed" and \<^verbatim>\<open>data.value\<close> holding
  \<^verbatim>\<open># Result\<close> ends the polling with that markdown displayed.
\<close>

theorem poll_completed_witness:
  "poll_step JsonSettled (awaiting_json (json_response completed_value), initial_state) =
     (\<lparr>ignore = False, timer = True, timer_pending = False, phase = NotRunning\<rparr>,
      \<lparr>isSubmitting = False, statusS = Some completed_value, jobId = None, errorS = None,
       markdownS = ''# Result'', rawResponse = Some completed_value\<rparr>)"
  using poll_completed [where p = "awaiting_json (json_response completed_value)"
       and resp = "json_response completed_value" and payload = completed_value
       and s = initial_state]
  by (simp add: awaiting_json_def json_response_def completed_value_def empty_payload_def
        initial_state_def result_fields_def toLowerCase_def lower_char_def)

text \<open>
  C1 as stated fails when \<^verbatim>\<open>data.value\<close> is the empty string and \<^verbatim>\<open>markdown\<close> is not:
  the first non-empty field is the markdown, and the page displays the empty string.
\<close>

theorem poll_completed_counterexample:
  "first_non_empty (result_fields completed_empty_value) = ''# Result''
   \<and> markdownS (snd (poll_step JsonSettled
                        (awaiting_json (json_response completed_empty_value), initial_state))) = []"
  by (simp add: poll_payload_def Let_def awaiting_json_def json_response_def
        completed_empty_value_def empty_payload_def initial_state_def result_fields_def
        derivedMarkdown_def nullish_str_def toLowerCase_def lower_char_def)

lemma timer_kept_step: "timer (fst ps) \<Longrightarrow> timer (fst (poll_step ev ps))"
  by (cases ps; cases ev)
     (auto simp: poll_catch_def poll_payload_def Let_def split: sum.splits phase.splits)

lemma timer_kept_run: "timer (fst ps) \<Longrightarrow> timer (fst (poll_run evs ps))"
  by (induction evs arbitrary: ps) (simp_all add: timer_kept_step)

lemma poll_run_append: "poll_run (xs @ ys) ps = poll_run ys (poll_run xs ps)"
  by (induction xs arbitrary: ps) simp_all

lemma ignored_step:
  assumes "ignore p" and "\<not> timer_pending p"
  shows "snd (poll_step ev (p, s)) = s \<and> ignore (fst (poll_step ev (p, s)))
         \<and> \<not> timer_pending (fst (poll_step ev (p, s)))"
  using assms
  by (cases ev) (auto simp: poll_catch_def poll_payload_def split: sum.splits phase.splits)

lemma ignored_run:
  assumes "ignore (fst ps)" and "\<not> timer_pending (fst ps)"
  shows "snd (poll_run evs ps) = snd ps \<and> ignore (fst (poll_run evs ps))
         \<and> \<not> timer_pending (fst (poll_run evs ps))"
  using assms
proof (induction evs arbitrary: ps)
  case Nil
  then show ?case by simp
next
  case (Cons ev evs)
  obtain p s where ps: "ps = (p, s)" by (cases ps)
  with Cons.prems have st: "snd (poll_step ev ps) = s" "ignore (fst (poll_step ev ps))"
    "\<not> timer_pending (fst (poll_step ev ps))"
    using ignored_step [of p ev s] by simp_all
  from Cons.IH [OF st(2) st(3)] st(1) ps show ?case by simp
qed

text \<open>
  C2. Take an effect started for a job identifier, any events before its cleanup and
  any events after it. After the cleanup no timeout is pending, a timeout that fires
  starts nothing, and the component state (status, markdown, error, raw response and
  the rest) is what it was when the cleanup ran, whatever response arrives late.
\<close>

theorem cleanup_cancels_polling:
  assumes "start_effect j = Some p0"
  shows "snd (poll_run (before @ Cleanup # after) (p0, s0)) = snd (poll_run before (p0, s0))
     \<and> \<not> timer_pending (fst (poll_run (before @ Cleanup # after) (p0, s0)))
     \<and> poll_step TimerFired (poll_run (before @ Cleanup # after) (p0, s0))
         = poll_run (before @ Cleanup # after) (p0, s0)"
proof -
  obtain p1 s1 where b: "poll_run before (p0, s0) = (p1, s1)"
    by (cases "poll_run before (p0, s0)")
  from assms have "timer p0"
    by (auto simp: start_effect_def split: if_splits)
  then have "timer p1"
    using timer_kept_run [of "(p0, s0)" before] b by simp
  then have c: "poll_step Cleanup (p1, s1) = (p1\<lparr>ignore := True, timer_pending := False\<rparr>, s1)"
    by simp
  let ?r = "poll_run after (poll_step Cleanup (p1, s1))"
  have r: "snd ?r = s1" "\<not> timer_pending (fst ?r)"
    using ignored_run [of "poll_step Cleanup (p1, s1)" after] c by simp_all
  have t: "poll_step TimerFired ?r = ?r"
    using r(2) by (cases ?r) simp
  have "poll_run (before @ Cleanup # after) (p0, s0) = ?r"
    by (simp add: poll_run_append b)
  with r t b show ?thesis by simp
qed

text \<open>
  C2 at a session for job \<^verbatim>\<open>abc123\<close> that is cleaned up while its first request is in
  flight: the completed payload that arrives afterwards leaves the state as it was.
\<close>

theorem cleanup_cancels_polling_witness:
  "start_effect (Some ''abc123'') =
     Some \<lparr>ignore = False, timer = True, timer_pending = True, phase = NotRunning\<rparr>
   \<and> snd (poll_run ([TimerFired] @ Cleanup #
                     [FetchSettled (Inr (json_response completed_value)), JsonSettled, TimerFired])
            (\<lparr>ignore = False, timer = True, timer_pending = True, phase = NotRunning\<rparr>,
             initial_state)) = initial_state"
  using cleanup_cancels_polling [where j = "Some ''abc123''"
       and ?p0.0 = "\<lparr>ignore = False, timer = True, timer_pending = True, phase = NotRunning\<rparr>"
       and before = "[TimerFired]"
       and after = "[FetchSettled (Inr (json_response completed_value)), JsonSettled, TimerFired]"
       and ?s0.0 = initial_state]
  by (simp add: start_effect_def falsy_str_def)

section \<open>The progress fraction\<close>

text \<open>
  C5, as the code has it. Take a status payload whose \<^verbatim>\<open>pages_processed\<close>, when
  present, is not negative. When \<^verbatim>\<open>num_pages\<close> is absent or not negative, the progress
  fraction lies between 0 and 1. When \<^verbatim>\<open>num_pages\<close> is positive, the fraction is
  \<^verbatim>\<open>pages_processed / num_pages\<close> clamped to the range from 0 to 1; when \<^verbatim>\<open>num_pages\<close> is 0
  or absent, it is 0. It is 0 as well while there is no status. The counters are
  rationals here, which covers the integer counters of the data model.
\<close>

theorem progress_range:
  assumes "\<forall>pp. pages_processed v = Some pp \<longrightarrow> 0 \<le> pp"
  shows "(num_pages v = None \<or> (\<exists>np. num_pages v = Some np \<and> 0 \<le> np) \<longrightarrow>
            0 \<le> progress (Some v) \<and> progress (Some v) \<le> 1)
     \<and> (\<forall>np pp. num_pages v = Some np \<and> 0 < np \<and> pages_processed v = Some pp \<longrightarrow>
           progress (Some v) = max 0 (min (pp / np) 1))
     \<and> (num_pages v = None \<or> num_pages v = Some 0 \<longrightarrow> progress (Some v) = 0)
     \<and> progress None = 0"
  using assms
  by (auto simp: progress_def falsy_num_def Let_def split: option.splits)

text \<open>C5 at Scenario B: 4 pages of 10 processed give the fraction 2/5.\<close>

theorem progress_range_witness:
  "progress (Some (empty_payload\<lparr>status := Some ''processing'', num_pages := Some 10,
                                 pages_processed := Some 4\<rparr>)) = 2 / 5
   \<and> 0 \<le> progress (Some (empty_payload\<lparr>status := Some ''processing'', num_pages := Some 10,
                                       pages_processed := Some 4\<rparr>))
   \<and> progress (Some (empty_payload\<lparr>status := Some ''processing'', num_pages := Some 10,
                                   pages_processed := Some 4\<rparr>)) \<le> 1
   \<and> progress (Some (empty_payload\<lparr>status := Some ''processing'',
                                   pages_processed := Some 4\<rparr>)) = 0"
  using progress_range [where v = "empty_payload\<lparr>status := Some ''processing'',
                                                  num_pages := Some 10, pages_processed := Some 4\<rparr>"]
    progress_range [where v = "empty_payload\<lparr>status := Some ''processing'',
                                             pages_processed := Some 4\<rparr>"]
  by (simp add: empty_payload_def)

text \<open>
  C5 as stated fails at a negative \<^verbatim>\<open>num_pages\<close>: the fraction is only cut off at 1,
  so with \<^verbatim>\<open>num_pages\<close> -5 and \<^verbatim>\<open>pages_processed\<close> 4 it is -4/5, below 0.
\<close>

theorem progress_range_counterexample:
  "(0::rat) \<le> 4
   \<and> progress (Some (empty_payload\<lparr>status := Some ''processing'', num_pages := Some (- 5),
                                   pages_processed := Some 4\<rparr>)) = - (4 / 5)
   \<and> \<not> 0 \<le> progress (Some (empty_payload\<lparr>status := Some ''processing'',
                                           num_pages := Some (- 5),
                                           pages_processed := Some 4\<rparr>))"
  by (simp add: progress_def falsy_num_def Let_def empty_payload_def)

section \<open>Submitting the form\<close>

text \<open>
  C6. When a PDF is attached and the upload is answered with a success status and a
  JSON payload, the job identifier is the first of \<^verbatim>\<open>job_id\<close>, \<^verbatim>\<open>id\<close>, \<^verbatim>\<open>pdf_id\<close> that is
  present with a non-empty value: it is stored together with the payload and no error
  is shown. When none of the three is, no job identifier is stored (so no polling
  starts) and the error is "Upload succeeded but no job id returned by Mathpix.".
\<close>

theorem handleSubmit_job_id:
  assumes "files = f # fs" and "file_type f = ''application/pdf''"
    and "cr_ok resp" and "cr_json resp = Inr payload"
  shows "handleSubmit files (Inr resp) s =
     (case first_truthy [job_id payload, id_field payload, pdf_id payload] of
        Some j \<Rightarrow>
          s\<lparr>isSubmitting := False, errorS := None, statusS := Some payload, jobId := Some j,
            markdownS := [], rawResponse := Some payload\<rparr>
      | None \<Rightarrow>
          s\<lparr>isSubmitting := False,
            errorS := Some ''Upload succeeded but no job id returned by Mathpix.'',
            statusS := None, jobId := None, markdownS := [], rawResponse := None\<rparr>)"
  using assms
  by (auto simp: handleSubmit_def handleSubmit_try_def or_str_def falsy_str_def exn_message_def
        Let_def split: option.splits)

text \<open>
  C6 at Scenario E (a payload with no identifier field: the error is shown, no job is
  tracked) and at a payload that has \<^verbatim>\<open>id\<close> and \<^verbatim>\<open>pdf_id\<close> but no \<^verbatim>\<open>job_id\<close> (\<^verbatim>\<open>id\<close> wins).
\<close>

theorem handleSubmit_job_id_witness:
  "handleSubmit [\<lparr>file_type = ''application/pdf''\<rparr>]
      (Inr (json_response (empty_payload\<lparr>status := Some ''queued''\<rparr>))) initial_state =
     \<lparr>isSubmitting = False, statusS = None, jobId = None,
      errorS = Some ''Upload succeeded but no job id returned by Mathpix.'', markdownS = [],
      rawResponse = None\<rparr>
   \<and> jobId (handleSubmit [\<lparr>file_type = ''application/pdf''\<rparr>]
              (Inr (json_response (empty_payload\<lparr>id_field := Some ''g7'', pdf_id := Some ''p9''\<rparr>)))
              initial_state) = Some ''g7''"
  using handleSubmit_job_id [where files = "[\<lparr>file_type = ''application/pdf''\<rparr>]"
       and f = "\<lparr>file_type = ''application/pdf''\<rparr>" and fs = "[]"
       and resp = "json_response (empty_payload\<lparr>status := Some ''queued''\<rparr>)"
       and payload = "empty_payload\<lparr>status := Some ''queued''\<rparr>" and s = initial_state]
    handleSubmit_job_id [where files = "[\<lparr>file_type = ''application/pdf''\<rparr>]"
       and f = "\<lparr>file_type = ''application/pdf''\<rparr>" and fs = "[]"
       and resp = "json_response (empty_payload\<lparr>id_field := Some ''g7'', pdf_id := Some ''p9''\<rparr>)"
       and payload = "empty_payload\<lparr>id_field := Some ''g7'', pdf_id := Some ''p9''\<rparr>"
       and s = initial_state]
  by (simp add: json_response_def empty_payload_def initial_state_def)

end
